theory Spec2Isabelle
  imports Main
begin

section \<open>The preprocessing module (src/preprocessing/preprocessing.py)\<close>

text \<open>
  The module declares eight public functions. Each of them consists of a signature, a
  docstring that describes the expected behaviour and ends in a TODO, and one statement:
  \<^verbatim>\<open>raise NotImplementedError("...")\<close>, each with a message of its own. The embedding
  below keeps the signatures (parameter order, optional parameters, result type) and the
  one statement of every body.
\<close>

subsection \<open>Data\<close>

text \<open>
  A Python \<^verbatim>\<open>str\<close> is an immutable sequence of Unicode code points: a list of naturals.
  \<open>str\<close> reads an ASCII literal as such a text. Values of this type are never
  modified in place; a function can only return a new one.
\<close>

type_synonym pystr = "nat list"

definition str :: "string \<Rightarrow> pystr" where
  "str s = map of_char s"

text \<open>
  Exceptions are values. \<open>NotImplementedError\<close> is Python's builtin and carries the message
  it was constructed with; it is the only exception the module raises. The other four are
  the error kinds that the specification names; no statement of the module raises them.
\<close>

datatype error =
    NotImplementedError string
  | InvalidFormError
  | UnsupportedMethodError
  | InvalidOptionError
  | CapabilityUnavailableError

type_synonym 'a result = "error + 'a"

definition returns :: "'a result \<Rightarrow> bool" where
  "returns r = (case r of Inl e \<Rightarrow> False | Inr v \<Rightarrow> True)"

fun raises_not_implemented :: "'a result \<Rightarrow> bool" where
  "raises_not_implemented (Inl (NotImplementedError m)) = True"
| "raises_not_implemented (Inl InvalidFormError) = False"
| "raises_not_implemented (Inl UnsupportedMethodError) = False"
| "raises_not_implemented (Inl InvalidOptionError) = False"
| "raises_not_implemented (Inl CapabilityUnavailableError) = False"
| "raises_not_implemented (Inr v) = False"

text \<open>
  Sequencing of calls: an exception raised by the first call propagates, and the second
  call is not made.
\<close>

definition bind_result :: "'a result \<Rightarrow> ('a \<Rightarrow> 'b result) \<Rightarrow> 'b result" where
  "bind_result r f = (case r of Inl e \<Rightarrow> Inl e | Inr v \<Rightarrow> f v)"

subsection \<open>The stage functions\<close>

text \<open>\<^verbatim>\<open>ocr_correction(text, model_path=None, use_remote=False, device="cpu",
  batch_size=32, verbose=False) -> str\<close>, lines 21 to 43.\<close>

definition ocr_correction ::
  "pystr \<Rightarrow> pystr option \<Rightarrow> bool \<Rightarrow> pystr \<Rightarrow> int \<Rightarrow> bool \<Rightarrow> pystr result" where
  "ocr_correction tx model_path use_remote device batch_size verbose =
     Inl (NotImplementedError ''Implement OCR correction using the chosen model/service.'')"

text \<open>\<^verbatim>\<open>normalize_unicode(text, form="NFC", remove_unsupported=True,
  allowed_categories=None) -> str\<close>, lines 46 to 64.\<close>

definition normalize_unicode ::
  "pystr \<Rightarrow> pystr \<Rightarrow> bool \<Rightarrow> pystr list option \<Rightarrow> pystr result" where
  "normalize_unicode tx form remove_unsupported allowed_categories =
     Inl (NotImplementedError ''Implement Unicode normalization and filtering.'')"

text \<open>\<^verbatim>\<open>lowercase(text, aggressive=False) -> str\<close>, lines 67 to 78.\<close>

definition lowercase :: "pystr \<Rightarrow> bool \<Rightarrow> pystr result" where
  "lowercase tx aggressive =
     Inl (NotImplementedError ''Implement lowercasing with optional heuristics.'')"

text \<open>\<^verbatim>\<open>split_sentences(text, method="simple", language="it",
  keep_line_breaks=False) -> List[str]\<close>, lines 81 to 98.\<close>

definition split_sentences ::
  "pystr \<Rightarrow> pystr \<Rightarrow> pystr \<Rightarrow> bool \<Rightarrow> pystr list result" where
  "split_sentences tx method language keep_line_breaks =
     Inl (NotImplementedError ''Implement sentence splitting using the chosen method.'')"

text \<open>\<^verbatim>\<open>handle_broken_words(text, join_hyphenated=True, max_line_gap=0,
  preserve_tokens=None) -> str\<close>, lines 101 to 118.\<close>

definition handle_broken_words ::
  "pystr \<Rightarrow> bool \<Rightarrow> int \<Rightarrow> pystr list option \<Rightarrow> pystr result" where
  "handle_broken_words tx join_hyphenated max_line_gap preserve_tokens =
     Inl (NotImplementedError ''Implement broken-word rejoining logic.'')"

text \<open>\<^verbatim>\<open>normalize_whitespace(text, collapse_spaces=True, collapse_newlines=False,
  trim=True) -> str\<close>, lines 121 to 138.\<close>

definition normalize_whitespace ::
  "pystr \<Rightarrow> bool \<Rightarrow> bool \<Rightarrow> bool \<Rightarrow> pystr result" where
  "normalize_whitespace tx collapse_spaces collapse_newlines trim =
     Inl (NotImplementedError ''Implement whitespace normalization.'')"

text \<open>\<^verbatim>\<open>normalize_quotes_and_accents(text, map_smart_quotes=True,
  normalize_apostrophes=True, ascii_fallback=False, accent_map=None) -> str\<close>,
  lines 141 to 160. The accent map is a dictionary from strings to strings.\<close>

definition normalize_quotes_and_accents ::
  "pystr \<Rightarrow> bool \<Rightarrow> bool \<Rightarrow> bool \<Rightarrow> (pystr \<rightharpoonup> pystr) option \<Rightarrow> pystr result" where
  "normalize_quotes_and_accents tx map_smart_quotes normalize_apostrophes ascii_fallback
       accent_map =
     Inl (NotImplementedError ''Implement quote and accent normalization.'')"

subsection \<open>The orchestrator\<close>

text \<open>
  \<^verbatim>\<open>preprocess_pipeline(text, do_ocr_correction=False, do_unicode_normalize=True,
  do_lowercase=True, do_handle_broken=True, do_split_sentences=True,
  do_whitespace_normalize=True, do_quote_normalize=True, ocr_options=None,
  unicode_options=None, split_options=None, broken_options=None,
  whitespace_options=None, quote_options=None) -> List[str]\<close>, lines 163 to 196.

  The seven flags and six option dictionaries are gathered in one record, in the order of
  the signature. An option dictionary (\<^verbatim>\<open>Optional[Dict[str, Any]]\<close>) holds keyword
  arguments of the stage it belongs to: it is a record of that stage's parameters, each
  of which may be absent. There is no option dictionary for \<^verbatim>\<open>lowercase\<close>.
\<close>

record ocr_opts =
  opt_model_path :: "pystr option"
  opt_use_remote :: "bool option"
  opt_device :: "pystr option"
  opt_batch_size :: "int option"
  opt_verbose :: "bool option"

record unicode_opts =
  opt_form :: "pystr option"
  opt_remove_unsupported :: "bool option"
  opt_allowed_categories :: "pystr list option"

record split_opts =
  opt_method :: "pystr option"
  opt_language :: "pystr option"
  opt_keep_line_breaks :: "bool option"

record broken_opts =
  opt_join_hyphenated :: "bool option"
  opt_max_line_gap :: "int option"
  opt_preserve_tokens :: "pystr list option"

record whitespace_opts =
  opt_collapse_spaces :: "bool option"
  opt_collapse_newlines :: "bool option"
  opt_trim :: "bool option"

record quote_opts =
  opt_map_smart_quotes :: "bool option"
  opt_normalize_apostrophes :: "bool option"
  opt_ascii_fallback :: "bool option"
  opt_accent_map :: "(pystr \<rightharpoonup> pystr) option"

record pipeline_config =
  do_ocr_correction :: bool
  do_unicode_normalize :: bool
  do_lowercase :: bool
  do_handle_broken :: bool
  do_split_sentences :: bool
  do_whitespace_normalize :: bool
  do_quote_normalize :: bool
  ocr_options :: "ocr_opts option"
  unicode_options :: "unicode_opts option"
  split_options :: "split_opts option"
  broken_options :: "broken_opts option"
  whitespace_options :: "whitespace_opts option"
  quote_options :: "quote_opts option"

definition preprocess_pipeline :: "pystr \<Rightarrow> pipeline_config \<Rightarrow> pystr list result" where
  "preprocess_pipeline tx cfg =
     Inl (NotImplementedError ''Implement the preprocessing pipeline orchestration.'')"

text \<open>The defaults of the signature, and the configuration that disables every stage.\<close>

definition default_config :: pipeline_config where
  "default_config = \<lparr> do_ocr_correction = False, do_unicode_normalize = True,
     do_lowercase = True, do_handle_broken = True, do_split_sentences = True,
     do_whitespace_normalize = True, do_quote_normalize = True,
     ocr_options = None, unicode_options = None, split_options = None,
     broken_options = None, whitespace_options = None, quote_options = None \<rparr>"

definition all_disabled :: pipeline_config where
  "all_disabled = default_config \<lparr> do_unicode_normalize := False, do_lowercase := False,
     do_handle_broken := False, do_split_sentences := False,
     do_whitespace_normalize := False, do_quote_normalize := False \<rparr>"

subsection \<open>The pipeline as the specification describes it\<close>

text \<open>
  The specification describes the orchestrator as a composition of the stage functions
  above. The definitions of this subsection follow the specification's words, not the
  body of \<^verbatim>\<open>preprocess_pipeline\<close>; they exist to be compared with it. The stage
  functions they call are the ones of the source.

  A keyword that is absent from an option dictionary takes the default of the stage's
  signature.
\<close>

definition kw :: "'o option \<Rightarrow> ('o \<Rightarrow> 'a option) \<Rightarrow> 'a \<Rightarrow> 'a" where
  "kw opts field dflt =
     (case opts of None \<Rightarrow> dflt
      | Some d \<Rightarrow> (case field d of None \<Rightarrow> dflt | Some v \<Rightarrow> v))"

definition kw_opt :: "'o option \<Rightarrow> ('o \<Rightarrow> 'a option) \<Rightarrow> 'a option" where
  "kw_opt opts field = (case opts of None \<Rightarrow> None | Some d \<Rightarrow> field d)"

definition spec_ocr_stage :: "pipeline_config \<Rightarrow> pystr \<Rightarrow> pystr result" where
  "spec_ocr_stage cfg tx =
     ocr_correction tx (kw_opt (ocr_options cfg) opt_model_path)
       (kw (ocr_options cfg) opt_use_remote False)
       (kw (ocr_options cfg) opt_device (str ''cpu''))
       (kw (ocr_options cfg) opt_batch_size 32)
       (kw (ocr_options cfg) opt_verbose False)"

definition spec_unicode_stage :: "pipeline_config \<Rightarrow> pystr \<Rightarrow> pystr result" where
  "spec_unicode_stage cfg tx =
     normalize_unicode tx (kw (unicode_options cfg) opt_form (str ''NFC''))
       (kw (unicode_options cfg) opt_remove_unsupported True)
       (kw_opt (unicode_options cfg) opt_allowed_categories)"

definition spec_quote_stage :: "pipeline_config \<Rightarrow> pystr \<Rightarrow> pystr result" where
  "spec_quote_stage cfg tx =
     normalize_quotes_and_accents tx (kw (quote_options cfg) opt_map_smart_quotes True)
       (kw (quote_options cfg) opt_normalize_apostrophes True)
       (kw (quote_options cfg) opt_ascii_fallback False)
       (kw_opt (quote_options cfg) opt_accent_map)"

definition spec_broken_stage :: "pipeline_config \<Rightarrow> pystr \<Rightarrow> pystr result" where
  "spec_broken_stage cfg tx =
     handle_broken_words tx (kw (broken_options cfg) opt_join_hyphenated True)
       (kw (broken_options cfg) opt_max_line_gap 0)
       (kw_opt (broken_options cfg) opt_preserve_tokens)"

definition spec_lowercase_stage :: "pipeline_config \<Rightarrow> pystr \<Rightarrow> pystr result" where
  "spec_lowercase_stage cfg tx = lowercase tx False"

definition spec_whitespace_stage :: "pipeline_config \<Rightarrow> pystr \<Rightarrow> pystr result" where
  "spec_whitespace_stage cfg tx =
     normalize_whitespace tx (kw (whitespace_options cfg) opt_collapse_spaces True)
       (kw (whitespace_options cfg) opt_collapse_newlines False)
       (kw (whitespace_options cfg) opt_trim True)"

definition spec_split_stage :: "pipeline_config \<Rightarrow> pystr \<Rightarrow> pystr list result" where
  "spec_split_stage cfg tx =
     split_sentences tx (kw (split_options cfg) opt_method (str ''simple''))
       (kw (split_options cfg) opt_language (str ''it''))
       (kw (split_options cfg) opt_keep_line_breaks False)"

text \<open>A stage whose flag is false passes its document through unchanged.\<close>

definition stage :: "bool \<Rightarrow> ('a \<Rightarrow> 'a result) \<Rightarrow> 'a \<Rightarrow> 'a result" where
  "stage enabled f d = (if enabled then f d else Inr d)"

text \<open>
  What leaves the pipeline: the sentences when the last stage ran, the document itself
  when the last stage is disabled and passes it through.
\<close>

datatype pipeline_output = Document pystr | SentenceSequence "pystr list"

definition spec_text_stages :: "pipeline_config \<Rightarrow> pystr \<Rightarrow> pystr result" where
  "spec_text_stages cfg tx =
     bind_result (stage (do_ocr_correction cfg) (spec_ocr_stage cfg) tx) (\<lambda>t1.
     bind_result (stage (do_unicode_normalize cfg) (spec_unicode_stage cfg) t1) (\<lambda>t2.
     bind_result (stage (do_quote_normalize cfg) (spec_quote_stage cfg) t2) (\<lambda>t3.
     bind_result (stage (do_handle_broken cfg) (spec_broken_stage cfg) t3) (\<lambda>t4.
     bind_result (stage (do_lowercase cfg) (spec_lowercase_stage cfg) t4) (\<lambda>t5.
     stage (do_whitespace_normalize cfg) (spec_whitespace_stage cfg) t5)))))"

definition spec_pipeline :: "pystr \<Rightarrow> pipeline_config \<Rightarrow> pipeline_output result" where
  "spec_pipeline tx cfg =
     bind_result (spec_text_stages cfg tx) (\<lambda>t.
       if do_split_sentences cfg
       then map_sum id SentenceSequence (spec_split_stage cfg t)
       else Inr (Document t))"

text \<open>The outcome of the orchestrator of the source, in the same type.\<close>

definition pipeline_outcome :: "pystr \<Rightarrow> pipeline_config \<Rightarrow> pipeline_output result" where
  "pipeline_outcome tx cfg = map_sum id SentenceSequence (preprocess_pipeline tx cfg)"

subsection \<open>Example inputs\<close>

text \<open>
  The inputs of the specification's examples. Code point 232 is the letter e with a grave
  accent, code point 10 the line feed, code point 769 the combining acute accent.
\<close>

definition broken_line_example :: pystr where
  "broken_line_example =
     str ''il libro '' @ [232] @ str '' molto interes-'' @ [10] @ str ''sante.''"

definition rejoined_line_example :: pystr where
  "rejoined_line_example = str ''il libro '' @ [232] @ str '' molto interessante.''"

definition benessere_example :: pystr where
  "benessere_example = str ''parole chiave: ben-'' @ [10] @ str ''essere''"

definition benessere_merged :: pystr where
  "benessere_merged = str ''parole chiave: benessere''"

definition two_sentences_example :: pystr where
  "two_sentences_example = str ''Il gatto dorme. Il cane corre!''"

definition acronym_example :: pystr where
  "acronym_example = str ''NASA Roma''"

definition decomposed_example :: pystr where
  "decomposed_example = str ''caffe'' @ [769]"

definition spaced_example :: pystr where
  "spaced_example = str ''  Il   gatto  dorme. ''"

subsection \<open>Notions used by the statements\<close>

text \<open>The four normalization forms that the docstring of \<^verbatim>\<open>normalize_unicode\<close> lists.\<close>

definition canonical_forms :: "pystr list" where
  "canonical_forms = [str ''NFC'', str ''NFD'', str ''NFKC'', str ''NFKD'']"

text \<open>An outcome that is one of the error kinds of the specification.\<close>

fun raises_spec_error :: "'a result \<Rightarrow> bool" where
  "raises_spec_error (Inl (NotImplementedError m)) = False"
| "raises_spec_error (Inl InvalidFormError) = True"
| "raises_spec_error (Inl UnsupportedMethodError) = True"
| "raises_spec_error (Inl InvalidOptionError) = True"
| "raises_spec_error (Inl CapabilityUnavailableError) = True"
| "raises_spec_error (Inr v) = False"

text \<open>The outcome of a function that is not implemented: \<^verbatim>\<open>NotImplementedError\<close>, no
  value, and none of the specification's errors.\<close>

definition stub_outcome :: "'a result \<Rightarrow> bool" where
  "stub_outcome r = (raises_not_implemented r \<and> \<not> returns r \<and> \<not> raises_spec_error r)"

section \<open>Properties\<close>

subsection \<open>Outcomes of the stage functions\<close>

lemma returns_Inl [simp]: "returns (Inl e) = False"
  by (simp add: returns_def)

lemma returns_Inr [simp]: "returns (Inr v) = True"
  by (simp add: returns_def)

lemma bind_result_Inl [simp]: "bind_result (Inl e) f = Inl e"
  by (simp add: bind_result_def)

lemma bind_result_Inr [simp]: "bind_result (Inr v) f = f v"
  by (simp add: bind_result_def)

lemma stage_disabled [simp]: "stage False f d = Inr d"
  by (simp add: stage_def)

lemma stage_enabled [simp]: "stage True f d = f d"
  by (simp add: stage_def)

text \<open>
  With every flag false the composition of the specification returns the document as it
  came in.
\<close>

lemma spec_pipeline_all_disabled: "spec_pipeline tx all_disabled = Inr (Document tx)"
  by (simp add: spec_pipeline_def spec_text_stages_def all_disabled_def default_config_def)

subsection \<open>The claims\<close>

text \<open>
  Every docstring of the module describes, under "Expected behavior", what its function
  is to do, and marks the body as still to be written. The first nine claims state that
  behaviour. For each of them the theorem below evaluates the function at an input of the
  claim and shows where the body, a single \<^verbatim>\<open>raise\<close>, departs from it.
\<close>

text \<open>
  C1: the orchestrator applies the enabled stages in the order OCR correction, Unicode
  normalization, quotes and accents, broken words, lowercasing, whitespace, sentence
  splitting, and a stage whose flag is false passes the document through unchanged (the
  docstring, lines 180 and 184 to 192, gives the flags and the same order). With every
  flag false the composition of the enabled stages is empty and returns the document as it
  came in; \<^verbatim>\<open>preprocess_pipeline\<close> raises \<^verbatim>\<open>NotImplementedError\<close> instead.
\<close>

theorem C1_pipeline_all_disabled_raises:
  "spec_pipeline two_sentences_example all_disabled = Inr (Document two_sentences_example)
   \<and> pipeline_outcome two_sentences_example all_disabled =
       Inl (NotImplementedError ''Implement the preprocessing pipeline orchestration.'')"
  by (simp add: spec_pipeline_all_disabled pipeline_outcome_def preprocess_pipeline_def)

text \<open>
  C2: with a method that is not supported, such as \<^verbatim>\<open>"unknown"\<close>,
  \<^verbatim>\<open>split_sentences\<close> raises \<^verbatim>\<open>UnsupportedMethodError\<close> and produces no output (the
  docstring, line 88, lists the methods). On "Il gatto dorme. Il cane corre!" with
  \<^verbatim>\<open>method="unknown"\<close> the call produces no output, but the exception it raises is
  \<^verbatim>\<open>NotImplementedError\<close>: the method is never looked at.
\<close>

theorem C2_unknown_method_raises_not_implemented:
  "split_sentences two_sentences_example (str ''unknown'') (str ''it'') False =
     Inl (NotImplementedError ''Implement sentence splitting using the chosen method.'')
   \<and> split_sentences two_sentences_example (str ''unknown'') (str ''it'') False
       \<noteq> Inl UnsupportedMethodError"
  by (simp add: split_sentences_def)

text \<open>
  C3: \<^verbatim>\<open>normalize_unicode\<close> raises \<^verbatim>\<open>InvalidFormError\<close> exactly when the form is
  none of NFC, NFD, NFKC, NFKD (the docstring, line 53, lists these four). The form
  \<^verbatim>\<open>"XYZ"\<close> is none of the four, and the call raises \<^verbatim>\<open>NotImplementedError\<close>, not
  \<^verbatim>\<open>InvalidFormError\<close>: the form is never looked at.
\<close>

theorem C3_invalid_form_raises_not_implemented:
  "str ''XYZ'' \<notin> set canonical_forms
   \<and> normalize_unicode decomposed_example (str ''XYZ'') True None =
       Inl (NotImplementedError ''Implement Unicode normalization and filtering.'')
   \<and> normalize_unicode decomposed_example (str ''XYZ'') True None \<noteq> Inl InvalidFormError"
  by (simp add: str_def canonical_forms_def normalize_unicode_def)

text \<open>
  C4: \<^verbatim>\<open>normalize_whitespace\<close> is idempotent: the text it returns is returned unchanged
  by a second application (the docstring, lines 132 to 134, describes the clean-up whose
  result this is). On "  Il   gatto  dorme. " with the default options the first
  application already raises \<^verbatim>\<open>NotImplementedError\<close>: there is no normalized text,
  and nothing to apply the function to a second time.
\<close>

theorem C4_normalize_whitespace_returns_no_text:
  "normalize_whitespace spaced_example True False True =
     Inl (NotImplementedError ''Implement whitespace normalization.'')
   \<and> \<not> returns (normalize_whitespace spaced_example True False True)"
  by (simp add: normalize_whitespace_def)

text \<open>
  C5: for every valid form, applying \<^verbatim>\<open>normalize_unicode\<close> twice yields the same
  result as applying it once (the docstring, lines 57 to 60: apply
  \<^verbatim>\<open>unicodedata.normalize\<close> and return the normalized text). On "caffe" followed by
  a combining acute accent, with the valid form NFC, the first application already raises
  \<^verbatim>\<open>NotImplementedError\<close>: there is no result to normalize again.
\<close>

theorem C5_normalize_unicode_returns_no_text:
  "str ''NFC'' \<in> set canonical_forms
   \<and> normalize_unicode decomposed_example (str ''NFC'') True None =
       Inl (NotImplementedError ''Implement Unicode normalization and filtering.'')
   \<and> \<not> returns (normalize_unicode decomposed_example (str ''NFC'') True None)"
  by (simp add: canonical_forms_def normalize_unicode_def)

text \<open>
  C6: \<^verbatim>\<open>handle_broken_words\<close> on "il libro e molto interes-", line feed, "sante."
  (the e with a grave accent), with \<^verbatim>\<open>join_hyphenated=True\<close> and
  \<^verbatim>\<open>max_line_gap=0\<close>, returns "il libro e molto interessante." (the docstring,
  line 113, gives the same repair for "exam-", line feed, "ple"). The call raises
  \<^verbatim>\<open>NotImplementedError\<close> and returns no text.
\<close>

theorem C6_broken_line_not_rejoined:
  "handle_broken_words broken_line_example True 0 None =
     Inl (NotImplementedError ''Implement broken-word rejoining logic.'')
   \<and> handle_broken_words broken_line_example True 0 None \<noteq> Inr rejoined_line_example"
  by (simp add: handle_broken_words_def)

text \<open>
  C7: on "parole chiave: ben-", line feed, "essere", \<^verbatim>\<open>handle_broken_words\<close> merges
  the fragments into "benessere" when "ben" is not among the \<^verbatim>\<open>preserve_tokens\<close>,
  and leaves hyphen and line break unchanged when it is (the docstring, lines 110 and 113
  to 114: tokens that are not to be joined, and a conservative repair). Neither call
  returns a text: without tokens and with the token "ben" alike, the call raises
  \<^verbatim>\<open>NotImplementedError\<close>.
\<close>

theorem C7_benessere_neither_merged_nor_kept:
  "handle_broken_words benessere_example True 0 None =
     Inl (NotImplementedError ''Implement broken-word rejoining logic.'')
   \<and> handle_broken_words benessere_example True 0 None \<noteq> Inr benessere_merged
   \<and> handle_broken_words benessere_example True 0 (Some [str ''ben'']) =
       Inl (NotImplementedError ''Implement broken-word rejoining logic.'')
   \<and> handle_broken_words benessere_example True 0 (Some [str ''ben''])
       \<noteq> Inr benessere_example"
  by (simp add: handle_broken_words_def)

text \<open>
  C8: \<^verbatim>\<open>split_sentences\<close> on "Il gatto dorme. Il cane corre!" with
  \<^verbatim>\<open>method="simple"\<close> and \<^verbatim>\<open>language="it"\<close> returns the list of the two sentences
  "Il gatto dorme." and "Il cane corre!" (the docstring, line 93: a list of sentence
  strings without leading or trailing whitespace). The call raises
  \<^verbatim>\<open>NotImplementedError\<close> and returns no list.
\<close>

theorem C8_two_sentences_not_split:
  "split_sentences two_sentences_example (str ''simple'') (str ''it'') False =
     Inl (NotImplementedError ''Implement sentence splitting using the chosen method.'')
   \<and> split_sentences two_sentences_example (str ''simple'') (str ''it'') False
       \<noteq> Inr [str ''Il gatto dorme.'', str ''Il cane corre!'']"
  by (simp add: split_sentences_def)

text \<open>
  C9: with \<^verbatim>\<open>aggressive=True\<close> \<^verbatim>\<open>lowercase\<close> lower-cases the text unconditionally,
  so "NASA Roma" becomes "nasa roma"; with \<^verbatim>\<open>aggressive=False\<close> runs of two or more
  capitals that no lower-case letter follows are kept, so "NASA Roma" becomes "NASA roma"
  (the docstring, lines 71 to 74: a lower-cased version of the text, with heuristic
  exceptions when \<^verbatim>\<open>aggressive=False\<close>). In both modes the call raises
  \<^verbatim>\<open>NotImplementedError\<close> and returns no text.
\<close>

theorem C9_acronym_example_not_lowercased:
  "lowercase acronym_example True =
     Inl (NotImplementedError ''Implement lowercasing with optional heuristics.'')
   \<and> lowercase acronym_example True \<noteq> Inr (str ''nasa roma'')
   \<and> lowercase acronym_example False =
       Inl (NotImplementedError ''Implement lowercasing with optional heuristics.'')
   \<and> lowercase acronym_example False \<noteq> Inr (str ''NASA roma'')"
  by (simp add: lowercase_def)

text \<open>
  C10: every public function of the module raises \<^verbatim>\<open>NotImplementedError\<close> for every
  input and every combination of options; no call returns a value, and no call raises one
  of the error kinds of the specification.
\<close>

theorem C10_every_function_not_implemented:
  "stub_outcome (ocr_correction tx model_path use_remote device batch_size verbose)
   \<and> stub_outcome (normalize_unicode tx form remove_unsupported allowed_categories)
   \<and> stub_outcome (lowercase tx aggressive)
   \<and> stub_outcome (split_sentences tx method language keep_line_breaks)
   \<and> stub_outcome (handle_broken_words tx join_hyphenated max_line_gap preserve_tokens)
   \<and> stub_outcome (normalize_whitespace tx collapse_spaces collapse_newlines trim)
   \<and> stub_outcome (normalize_quotes_and_accents tx map_smart_quotes normalize_apostrophes
         ascii_fallback accent_map)
   \<and> stub_outcome (preprocess_pipeline tx cfg)"
  by (simp add: stub_outcome_def ocr_correction_def normalize_unicode_def lowercase_def
      split_sentences_def handle_broken_words_def normalize_whitespace_def
      normalize_quotes_and_accents_def preprocess_pipeline_def)

end
